theory Spec2Isabelle
  imports Complex_Main
begin

section \<open>Data model\<close>

text \<open>
  The simulator is one React component, \<open>FluidTradingSimulator\<close>. Two revisions of
  it are verified: the earlier one (linear random walk, no balance log) and the later one
  (exponential drift, balance log, CSV export). JavaScript numbers are modelled as
  \<open>real\<close>, so every statement is over exact arithmetic and over finite values only:
  \<open>NaN\<close>, the infinities and a division by a price of exactly zero are outside the model.
\<close>

datatype Variant = Linear | ExpDrift

record PricePoint =
  time :: nat
  price :: real

record BalanceEvent =
  ev_time :: nat
  balance :: real
  change :: real
  action :: string
  ev_price :: "real option"

text \<open>
  The values of the \<open>useState\<close> hooks as one render sees them. A timer callback closes
  over the render in which \<open>startSimulation\<close> ran, so a value of this type also serves
  as the captured snapshot.
\<close>

record SimState =
  assetName :: string
  anchorPrice :: real
  microTradeAmount :: real
  tradeInterval :: real
  isRunning :: bool
  currentPrice :: real
  cashBalance :: real
  sharesHeld :: real
  tradeStatus :: string
  priceData :: "PricePoint list"
  cashBalanceHistory :: "BalanceEvent list"

text \<open>
  The component: its current state and the interval scheduled through \<open>timerRef\<close>,
  if any, together with the render that the interval's callback captured.
\<close>

record Component =
  vars :: SimState
  timer :: "SimState option"

definition initialState :: SimState where
  "initialState =
     \<lparr>assetName = ''BTC'', anchorPrice = 100, microTradeAmount = 1, tradeInterval = 3,
      isRunning = False, currentPrice = 100, cashBalance = 1000, sharesHeld = 0,
      tradeStatus = ''IDLE'', priceData = [\<lparr>time = 0, price = 100\<rparr>],
      cashBalanceHistory =
        [\<lparr>ev_time = 0, balance = 1000, change = 0, action = ''INITIAL'', ev_price = None\<rparr>]\<rparr>"

definition mount :: Component where
  "mount = \<lparr>vars = initialState, timer = None\<rparr>"

section \<open>The timer callback\<close>

text \<open>
  \<open>r\<close> is the result of \<open>Math.random()\<close>; \<open>cl\<close> is the captured render. The
  linear revision starts from the captured \<open>currentPrice\<close>, the exponential one from
  the captured \<open>priceData.length\<close>.
\<close>

definition newPrice :: "Variant \<Rightarrow> SimState \<Rightarrow> real \<Rightarrow> real" where
  "newPrice v cl r =
     (case v of
        Linear \<Rightarrow>
          (let randomChange = (r - 0.5) * 2;
               volatility = anchorPrice cl * 0.01
           in currentPrice cl + randomChange * volatility)
      | ExpDrift \<Rightarrow>
          (let growthRate = 0.002;
               timeElapsed = length (priceData cl);
               exponentialBase = anchorPrice cl * (1 + growthRate) ^ timeElapsed;
               randomChange = (r - 0.5) * 2;
               volatility = exponentialBase * 0.015
           in exponentialBase + randomChange * volatility))"

text \<open>The updater passed to \<open>setPriceData\<close>; \<open>slice(n)\<close> with \<open>n \<ge> 0\<close> is \<open>drop n\<close>.\<close>

definition appendPrice :: "real \<Rightarrow> PricePoint list \<Rightarrow> PricePoint list" where
  "appendPrice p prevData =
     (let newData = prevData @ [\<lparr>time = length prevData, price = p\<rparr>]
      in if length newData > 50 then drop (length newData - 50) newData else newData)"

text \<open>
  The trade rule. The conditions read the captured \<open>cashBalance\<close> and
  \<open>sharesHeld\<close>; the updaters (\<open>prev => ...\<close>) act on the current state.
\<close>

definition executeTrade :: "SimState \<Rightarrow> real \<Rightarrow> SimState \<Rightarrow> SimState" where
  "executeTrade cl p s =
     (if p < anchorPrice cl then
        (if cashBalance cl \<ge> microTradeAmount cl then
           (let sharesToBuy = microTradeAmount cl / p
            in s\<lparr>cashBalance := cashBalance s - microTradeAmount cl,
                 sharesHeld := sharesHeld s + sharesToBuy,
                 tradeStatus := ''BUYING''\<rparr>)
         else s)
      else if p > anchorPrice cl then
        (if sharesHeld cl > 0 then
           (let sharesToSell = min (sharesHeld cl) (microTradeAmount cl / p);
                sellValue = sharesToSell * p
            in s\<lparr>cashBalance := cashBalance s + sellValue,
                 sharesHeld := sharesHeld s - sharesToSell,
                 tradeStatus := ''SELLING''\<rparr>)
         else s)
      else s\<lparr>tradeStatus := ''IDLE''\<rparr>)"

text \<open>
  The updater passed to \<open>setCashBalanceHistory\<close> (exponential revision only);
  \<open>projectedBalance\<close> is its constant \<open>currentBalance\<close>, computed from the captured
  render. \<open>x?.balance || 1000\<close> yields 1000 when the log is empty and when the last
  balance is 0.
\<close>

definition projectedBalance :: "SimState \<Rightarrow> real \<Rightarrow> real" where
  "projectedBalance cl p =
     cashBalance cl
     + (if p < anchorPrice cl \<and> cashBalance cl \<ge> microTradeAmount cl
        then - microTradeAmount cl else 0)
     + (if p > anchorPrice cl \<and> sharesHeld cl > 0
        then min (sharesHeld cl) (microTradeAmount cl / p) * p else 0)"

definition updateHistory :: "SimState \<Rightarrow> real \<Rightarrow> BalanceEvent list \<Rightarrow> BalanceEvent list" where
  "updateHistory cl p prevHistory =
     (let lastBalance =
            (if prevHistory = [] then 1000
             else if balance (last prevHistory) = 0 then 1000
             else balance (last prevHistory));
          currentBalance = projectedBalance cl p
      in if currentBalance = lastBalance then prevHistory
         else prevHistory @
           [\<lparr>ev_time = length prevHistory, balance = currentBalance,
             change = currentBalance - lastBalance, action = tradeStatus cl,
             ev_price = Some p\<rparr>])"

definition tickCallback :: "Variant \<Rightarrow> SimState \<Rightarrow> real \<Rightarrow> SimState \<Rightarrow> SimState" where
  "tickCallback v cl r s =
     (let p = newPrice v cl r;
          s1 = s\<lparr>currentPrice := p\<rparr>;
          s2 = s1\<lparr>priceData := appendPrice p (priceData s1)\<rparr>;
          s3 = executeTrade cl p s2
      in case v of
           Linear \<Rightarrow> s3
         | ExpDrift \<Rightarrow> s3\<lparr>cashBalanceHistory := updateHistory cl p (cashBalanceHistory s3)\<rparr>)"

text \<open>Consecutive firings of one interval: the captured render stays the same.\<close>

definition ticks :: "Variant \<Rightarrow> SimState \<Rightarrow> real list \<Rightarrow> SimState \<Rightarrow> SimState" where
  "ticks v cl rs s = foldl (\<lambda>s' r. tickCallback v cl r s') s rs"

section \<open>Commands and effects\<close>

definition startSimulation :: "Component \<Rightarrow> Component" where
  "startSimulation c =
     (if isRunning (vars c) then c
      else \<lparr>vars = (vars c)\<lparr>isRunning := True\<rparr>, timer = Some (vars c)\<rparr>)"

definition pauseSimulation :: "Component \<Rightarrow> Component" where
  "pauseSimulation c =
     (if isRunning (vars c)
      then \<lparr>vars = (vars c)\<lparr>isRunning := False, tradeStatus := ''PAUSED''\<rparr>, timer = None\<rparr>
      else c)"

definition resetSimulation :: "Variant \<Rightarrow> Component \<Rightarrow> Component" where
  "resetSimulation v c =
     (let s = (vars c)\<lparr>isRunning := False, currentPrice := anchorPrice (vars c),
                       cashBalance := 1000, sharesHeld := 0, tradeStatus := ''IDLE'',
                       priceData := [\<lparr>time = 0, price = anchorPrice (vars c)\<rparr>]\<rparr>
      in \<lparr>vars =
            (case v of
               Linear \<Rightarrow> s
             | ExpDrift \<Rightarrow>
                 s\<lparr>cashBalanceHistory :=
                     [\<lparr>ev_time = 0, balance = 1000, change = 0, action = ''INITIAL'',
                       ev_price = None\<rparr>]\<rparr>),
          timer = None\<rparr>)"

text \<open>
  The effect with dependencies \<open>[anchorPrice, isRunning]\<close>: it runs after a render in
  which one of the two changed, and re-baselines the chart unless the simulation runs.
\<close>

definition anchorEffect :: "SimState \<Rightarrow> SimState \<Rightarrow> SimState" where
  "anchorEffect old new =
     (if anchorPrice old = anchorPrice new \<and> isRunning old = isRunning new then new
      else if isRunning new then new
      else new\<lparr>currentPrice := anchorPrice new,
               priceData := [\<lparr>time = 0, price = anchorPrice new\<rparr>]\<rparr>)"

datatype Command =
    Start | Pause | Reset | Tick real
  | SetAnchorPrice real | SetMicroTradeAmount real

text \<open>
  One event of the component: a button, a firing of the interval (a no-op once the
  interval is cleared), or an input field, which is disabled while running.
\<close>

definition handle :: "Variant \<Rightarrow> Component \<Rightarrow> Command \<Rightarrow> Component" where
  "handle v c cmd =
     (case cmd of
        Start \<Rightarrow> startSimulation c
      | Pause \<Rightarrow> pauseSimulation c
      | Reset \<Rightarrow> resetSimulation v c
      | Tick r \<Rightarrow>
          (case timer c of
             None \<Rightarrow> c
           | Some cl \<Rightarrow> c\<lparr>vars := tickCallback v cl r (vars c)\<rparr>)
      | SetAnchorPrice a \<Rightarrow>
          (if isRunning (vars c) then c else c\<lparr>vars := (vars c)\<lparr>anchorPrice := a\<rparr>\<rparr>)
      | SetMicroTradeAmount a \<Rightarrow>
          (if isRunning (vars c) then c else c\<lparr>vars := (vars c)\<lparr>microTradeAmount := a\<rparr>\<rparr>))"

definition step :: "Variant \<Rightarrow> Component \<Rightarrow> Command \<Rightarrow> Component" where
  "step v c cmd =
     (let c' = handle v c cmd in c'\<lparr>vars := anchorEffect (vars c) (vars c')\<rparr>)"

definition run :: "Variant \<Rightarrow> Component \<Rightarrow> Command list \<Rightarrow> Component" where
  "run v c cmds = foldl (step v) c cmds"

section \<open>CSV export\<close>

text \<open>
  Decimal digits of a non-negative integer, as \<open>Array.prototype.join\<close> and
  \<open>toFixed\<close> print it.
\<close>

definition digitChar :: "nat \<Rightarrow> char" where
  "digitChar d = ''0123456789'' ! d"

fun showNat :: "nat \<Rightarrow> string" where
  "showNat n = (if n < 10 then [digitChar n] else showNat (n div 10) @ [digitChar (n mod 10)])"

text \<open>\<open>Array.prototype.join\<close> on an array of strings.\<close>

fun join :: "string \<Rightarrow> string list \<Rightarrow> string" where
  "join sep [] = []"
| "join sep [x] = x"
| "join sep (x # y # ys) = x @ sep @ join sep (y # ys)"

text \<open>
  \<open>Number.prototype.toFixed\<close> on a finite number, following ECMAScript: the sign,
  then for a magnitude below \<open>10^21\<close> the integer \<open>n\<close> nearest to the magnitude
  times \<open>10^f\<close> (the larger one on a tie), padded with zeros to more than \<open>f\<close>
  digits, with a point before the last \<open>f\<close>. From \<open>10^21\<close> on the result is the
  number's default string, computed by the parameter \<open>numberToString\<close>.
\<close>

definition insertPoint :: "nat \<Rightarrow> string \<Rightarrow> string" where
  "insertPoint f m0 =
     (let m1 = (if length m0 \<le> f then replicate (f + 1 - length m0) CHR ''0'' @ m0 else m0);
          k = length m1
      in take (k - f) m1 @ ''.'' @ drop (k - f) m1)"

definition toFixed :: "(real \<Rightarrow> string) \<Rightarrow> nat \<Rightarrow> real \<Rightarrow> string" where
  "toFixed numberToString f x0 =
     (let s = (if x0 < 0 then ''-'' else []);
          x = (if x0 < 0 then - x0 else x0);
          m = (if x \<ge> 10 ^ 21 then numberToString x
               else
                 (let n = nat \<lfloor>x * 10 ^ f + 1 / 2\<rfloor>;
                      m0 = showNat n
                  in if f = 0 then m0 else insertPoint f m0))
      in s @ m)"

text \<open>
  The text that \<open>exportCashBalanceData\<close> puts into the downloaded file
  (\<open>csvContent\<close>); \<open>csvRow\<close> is the callback of its \<open>map\<close>.
  \<open>entry.price?.toFixed(2) || "N/A"\<close> is \<open>N/A\<close> for an absent price and for an
  empty string.
\<close>

definition csvRow :: "(real \<Rightarrow> string) \<Rightarrow> BalanceEvent \<Rightarrow> string" where
  "csvRow numberToString entry =
     join '',''
       [showNat (ev_time entry),
        toFixed numberToString 2 (balance entry),
        toFixed numberToString 2 (change entry),
        action entry,
        (case ev_price entry of
           None \<Rightarrow> ''N/A''
         | Some p \<Rightarrow>
             (let t = toFixed numberToString 2 p in if t = [] then ''N/A'' else t))]"

definition exportCashBalanceData :: "(real \<Rightarrow> string) \<Rightarrow> BalanceEvent list \<Rightarrow> string" where
  "exportCashBalanceData numberToString history =
     join [CHR 0x0A]
       (join '','' [''Time'', ''Cash Balance'', ''Change'', ''Action'', ''Asset Price'']
        # map (csvRow numberToString) history)"

text \<open>
  The default string of a number (\<open>Number::toString\<close> of ECMAScript) in the only case
  \<open>toFixed\<close> asks for it, a magnitude of at least \<open>10^21\<close>, over exact arithmetic:
  with \<open>n\<close> the number of digits of the integer and \<open>s\<close> its digits without the
  trailing zeros (the shortest digit string that denotes it), the result is the first
  digit of \<open>s\<close>, a point and the other digits if there are any, then \<open>e+\<close> and
  \<open>n - 1\<close>. A double of this magnitude is an integer; a real that is not one is printed
  as its integer part.
\<close>

definition stripZeros :: "string \<Rightarrow> string" where
  "stripZeros ds = rev (dropWhile (\<lambda>c. c = CHR ''0'') (rev ds))"

definition exponentNotation :: "real \<Rightarrow> string" where
  "exponentNotation x =
     (let ds = showNat (nat \<lfloor>x\<rfloor>);
          n = length ds;
          s = stripZeros ds
      in (case s of
            [] \<Rightarrow> []
          | [d] \<Rightarrow> [d]
          | d # rest \<Rightarrow> d # ''.'' @ rest)
         @ ''e+'' @ showNat (n - 1))"

section \<open>Specification-side notions\<close>

text \<open>The most recent at most \<open>n\<close> entries of a sequence, in order.\<close>

definition lastN :: "nat \<Rightarrow> 'a list \<Rightarrow> 'a list" where
  "lastN n xs = drop (length xs - n) xs"

text \<open>A state whose price series is full: fifty points with times 0 to 49.\<close>

definition fullWindow :: SimState where
  "fullWindow = initialState\<lparr>priceData := map (\<lambda>i. \<lparr>time = i, price = 100\<rparr>) [0..<50]\<rparr>"

text \<open>
  The export as the specification words it: a number with exactly two decimals (sign,
  integer part, point, two digits of the magnitude rounded to hundredths), one row per
  event, the header first.
\<close>

definition spec_fixed2 :: "real \<Rightarrow> string" where
  "spec_fixed2 x =
     (let n = nat \<lfloor>\<bar>x\<bar> * 100 + 1 / 2\<rfloor>
      in (if x < 0 then ''-'' else []) @ showNat (n div 100) @ ''.''
         @ [digitChar (n div 10 mod 10), digitChar (n mod 10)])"

definition spec_row :: "BalanceEvent \<Rightarrow> string" where
  "spec_row e =
     showNat (ev_time e) @ '','' @ spec_fixed2 (balance e) @ '','' @ spec_fixed2 (change e)
     @ '','' @ action e @ '',''
     @ (case ev_price e of None \<Rightarrow> ''N/A'' | Some p \<Rightarrow> spec_fixed2 p)"

definition spec_csv :: "BalanceEvent list \<Rightarrow> string" where
  "spec_csv events =
     ''Time,Cash Balance,Change,Action,Asset Price''
     @ concat (map (\<lambda>e. CHR 0x0A # spec_row e) events)"

text \<open>
  Every number of the event is below \<open>10^21\<close> in magnitude, the range in which
  \<open>toFixed\<close> prints fixed notation.
\<close>

definition fixedNotation :: "BalanceEvent \<Rightarrow> bool" where
  "fixedNotation e =
     (\<bar>balance e\<bar> < 10 ^ 21 \<and> \<bar>change e\<bar> < 10 ^ 21
      \<and> (case ev_price e of None \<Rightarrow> True | Some p \<Rightarrow> \<bar>p\<bar> < 10 ^ 21))"

definition exampleLog :: "BalanceEvent list" where
  "exampleLog =
     [\<lparr>ev_time = 0, balance = 1000, change = 0, action = ''INITIAL'', ev_price = None\<rparr>,
      \<lparr>ev_time = 1, balance = 999, change = - 1, action = ''BUYING'', ev_price = Some 90\<rparr>]"

text \<open>
  While no interval is scheduled the simulation is stopped and the chart holds the single
  baseline point; a scheduled interval has captured such a chart.
\<close>

definition stoppedBaseline :: "Component \<Rightarrow> bool" where
  "stoppedBaseline c =
     (case timer c of
        None \<Rightarrow> isRunning (vars c) = False \<and> length (priceData (vars c)) = 1
      | Some cl \<Rightarrow> isRunning (vars c) = True \<and> length (priceData cl) = 1)"

section \<open>Facts about one tick and about runs\<close>

lemmas eval_defs = run_def step_def handle_def mount_def initialState_def startSimulation_def
  pauseSimulation_def resetSimulation_def anchorEffect_def tickCallback_def newPrice_def
  appendPrice_def executeTrade_def updateHistory_def projectedBalance_def Let_def

lemma tick_anchorPrice [simp]: "anchorPrice (tickCallback v cl r s) = anchorPrice s"
  by (cases v) (simp_all add: tickCallback_def executeTrade_def Let_def)

lemma tick_isRunning [simp]: "isRunning (tickCallback v cl r s) = isRunning s"
  by (cases v) (simp_all add: tickCallback_def executeTrade_def Let_def)

lemma tick_priceData:
  "priceData (tickCallback v cl r s) = appendPrice (newPrice v cl r) (priceData s)"
  by (cases v) (simp_all add: tickCallback_def executeTrade_def Let_def)

lemma tick_sharesHeld:
  "sharesHeld (tickCallback v cl r s) = sharesHeld (executeTrade cl (newPrice v cl r) s)"
  by (cases v) (simp_all add: tickCallback_def executeTrade_def Let_def)

lemma tick_history_Linear:
  "cashBalanceHistory (tickCallback Linear cl r s) = cashBalanceHistory s"
  by (simp add: tickCallback_def executeTrade_def Let_def)

lemma tick_history_ExpDrift:
  "cashBalanceHistory (tickCallback ExpDrift cl r s)
     = updateHistory cl (newPrice ExpDrift cl r) (cashBalanceHistory s)"
  by (simp add: tickCallback_def executeTrade_def Let_def)

lemma ticks_Nil [simp]: "ticks v cl [] s = s"
  by (simp add: ticks_def)

lemma ticks_Cons [simp]: "ticks v cl (r # rs) s = ticks v cl rs (tickCallback v cl r s)"
  by (simp add: ticks_def)

lemma ticks_snoc: "ticks v cl (rs @ [r]) s = tickCallback v cl r (ticks v cl rs s)"
  by (simp add: ticks_def)

lemma run_Nil [simp]: "run v c [] = c"
  by (simp add: run_def)

lemma run_Cons [simp]: "run v c (cmd # cmds) = run v (step v c cmd) cmds"
  by (simp add: run_def)

lemma run_snoc: "run v c (cmds @ [cmd]) = step v (run v c cmds) cmd"
  by (simp add: run_def)

text \<open>A property of the initial component that every event preserves holds after any run.\<close>

lemma run_invariant:
  assumes "P c" and "\<And>c' cmd. P c' \<Longrightarrow> P (step v c' cmd)"
  shows "P (run v c cmds)"
  using assms by (induction cmds rule: rev_induct) (simp_all add: run_snoc)

text \<open>Firings of a scheduled interval are the ticks of its captured render.\<close>

lemma run_ticks:
  "timer c = Some cl \<Longrightarrow> run v c (map Tick rs) = c\<lparr>vars := ticks v cl rs (vars c)\<rparr>"
proof (induction rs arbitrary: c)
  case Nil
  then show ?case by simp
next
  case (Cons r rs)
  have st: "step v c (Tick r) = c\<lparr>vars := tickCallback v cl r (vars c)\<rparr>"
    using Cons.prems by (simp add: step_def handle_def anchorEffect_def Let_def)
  show ?case
    using Cons.IH [of "step v c (Tick r)"] Cons.prems by (simp add: st)
qed

lemma step_stoppedBaseline: "stoppedBaseline c \<Longrightarrow> stoppedBaseline (step v c cmd)"
  by (cases cmd; cases v)
     (auto simp: stoppedBaseline_def step_def handle_def startSimulation_def pauseSimulation_def
        resetSimulation_def anchorEffect_def Let_def
        split: option.splits)

lemma reachable_stoppedBaseline: "stoppedBaseline (run v mount cmds)"
proof (rule run_invariant)
  show "stoppedBaseline mount"
    by (simp add: stoppedBaseline_def mount_def initialState_def)
  show "stoppedBaseline (step v c' cmd)" if "stoppedBaseline c'" for c' cmd
    using that by (rule step_stoppedBaseline)
qed

section \<open>The trade rule\<close>

text \<open>
  What the rule does to the status: BUYING and SELLING under the captured conditions,
  IDLE at a price equal to the anchor, and no assignment at all in the two remaining
  cases (buy zone without cash, sell zone without shares).
\<close>

lemma executeTrade_status:
  "tradeStatus (executeTrade cl p s) =
     (if p < anchorPrice cl \<and> cashBalance cl \<ge> microTradeAmount cl then ''BUYING''
      else if p > anchorPrice cl \<and> sharesHeld cl > 0 then ''SELLING''
      else if p = anchorPrice cl then ''IDLE''
      else tradeStatus s)"
  by (simp add: executeTrade_def Let_def)

lemma executeTrade_no_trade:
  assumes "p < anchorPrice cl \<and> cashBalance cl < microTradeAmount cl
           \<or> p > anchorPrice cl \<and> sharesHeld cl \<le> 0"
  shows "executeTrade cl p s = s"
  using assms by (auto simp: executeTrade_def Let_def)

text \<open>
  C1. The claim is that a tick without a trade sets the status to IDLE. The code assigns
  IDLE only at a price equal to the anchor. A sell-zone tick with no shares, and a
  buy-zone tick with less cash than the micro trade amount, leave the status as it was:
  after a pause and restart it stays PAUSED. After a buy, a sell-zone tick in the same run
  (shares now held, but zero in the captured render) leaves the status at BUYING.
\<close>

theorem status_not_reset_to_idle:
  "tradeStatus (vars (run v mount [Start, Pause, Start, Tick (3/4)])) = ''PAUSED''
   \<and> tradeStatus (vars (run v mount [SetMicroTradeAmount 2000, Start, Pause, Start, Tick (1/4)]))
       = ''PAUSED''
   \<and> tradeStatus (vars (run v mount [Start, Tick (1/4), Tick (3/4)])) = ''BUYING''"
  by (cases v) (simp_all add: eval_defs)

text \<open>
  C7. A BUY is value-neutral: whenever the BUY branch runs (price below the anchor,
  enough captured cash) at a price \<open>p \<noteq> 0\<close>, cash plus shares valued at \<open>p\<close> is the
  same before and after; cash falls by the micro trade amount and shares rise by that
  amount divided by \<open>p\<close>.
\<close>

theorem buy_value_neutral:
  assumes "p < anchorPrice cl" and "cashBalance cl \<ge> microTradeAmount cl" and "p \<noteq> 0"
  shows "cashBalance (executeTrade cl p s) + sharesHeld (executeTrade cl p s) * p
           = cashBalance s + sharesHeld s * p
         \<and> cashBalance (executeTrade cl p s) = cashBalance s - microTradeAmount cl
         \<and> sharesHeld (executeTrade cl p s) = sharesHeld s + microTradeAmount cl / p"
  using assms by (simp add: executeTrade_def Let_def algebra_simps)

theorem buy_value_neutral_witness:
  "cashBalance (executeTrade initialState 90 initialState)
     + sharesHeld (executeTrade initialState 90 initialState) * 90 = 1000
   \<and> cashBalance (executeTrade initialState 90 initialState) = 999
   \<and> sharesHeld (executeTrade initialState 90 initialState) = 1 / 90"
  using buy_value_neutral [of 90 initialState initialState]
  by (simp add: initialState_def)

subsection \<open>Shares held\<close>

text \<open>
  With a captured holding that is non-negative and not above the current one, a trade at
  a positive price keeps the holding non-negative: the SELL branch sells at most the
  captured holding. This is the case at the first tick after a start.
\<close>

lemma executeTrade_shares_nonneg:
  assumes "0 \<le> sharesHeld cl" and "sharesHeld cl \<le> sharesHeld s"
    and "0 \<le> microTradeAmount cl" and "0 < p"
  shows "0 \<le> sharesHeld (executeTrade cl p s)"
  using assms by (auto simp: executeTrade_def Let_def min_def)

lemma first_tick_shares_nonneg:
  assumes "isRunning (vars c) = False" and "0 \<le> sharesHeld (vars c)"
    and "0 \<le> microTradeAmount (vars c)" and "0 < newPrice v (vars c) r"
  shows "0 \<le> sharesHeld (vars (run v c [Start, Tick r]))"
proof -
  have st: "step v c Start = \<lparr>vars = (vars c)\<lparr>isRunning := True\<rparr>, timer = Some (vars c)\<rparr>"
    using assms(1) by (simp add: step_def handle_def startSimulation_def anchorEffect_def Let_def)
  have "run v c [Start, Tick r]
          = (step v c Start)\<lparr>vars := ticks v (vars c) [r] ((vars c)\<lparr>isRunning := True\<rparr>)\<rparr>"
    using run_ticks [of "step v c Start" "vars c" v "[r]"] by (simp add: st)
  moreover have "0 \<le> sharesHeld (executeTrade (vars c) (newPrice v (vars c) r)
                                      ((vars c)\<lparr>isRunning := True\<rparr>))"
    using assms by (intro executeTrade_shares_nonneg) simp_all
  ultimately show ?thesis by (simp add: tick_sharesHeld)
qed

text \<open>
  C2. The claim is that the holding is never negative. On the default settings, with
  positive prices throughout: a buy, a pause and a restart leave a positive holding in the
  captured render; the first sell-zone tick sells within it; the second one tests and
  caps by the same captured holding again, sells more than is left, and the holding is
  negative (the cash has grown to 1001).
\<close>

theorem restart_oversell:
  "0 < newPrice v (vars (run v mount [Start, Tick (1/4), Pause])) (3/4)
   \<and> 0 < sharesHeld (vars (run v mount [Start, Tick (1/4), Pause]))
   \<and> 0 < sharesHeld (vars (run v mount [Start, Tick (1/4), Pause, Start, Tick (3/4)]))
   \<and> sharesHeld (vars (run v mount [Start, Tick (1/4), Pause, Start, Tick (3/4), Tick (3/4)])) < 0
   \<and> cashBalance (vars (run v mount [Start, Tick (1/4), Pause, Start, Tick (3/4), Tick (3/4)]))
       = 1001"
  by (cases v) (simp_all add: eval_defs)

text \<open>
  Prices are not checked either: with a negative anchor the generated price is negative
  and the first BUY adds a negative number of shares.
\<close>

lemma negative_price_buy_example:
  "currentPrice (vars (run Linear mount [SetAnchorPrice (- 100), Start, Tick (3/4)])) < 0
   \<and> sharesHeld (vars (run Linear mount [SetAnchorPrice (- 100), Start, Tick (3/4)])) < 0
   \<and> currentPrice (vars (run ExpDrift mount [SetAnchorPrice (- 100), Start, Tick (3/4)])) < 0
   \<and> sharesHeld (vars (run ExpDrift mount [SetAnchorPrice (- 100), Start, Tick (3/4)])) < 0"
  by (simp add: eval_defs)

text \<open>
  Within one run started without shares the SELL branch never runs, and positive prices
  keep the holding non-negative.
\<close>

lemma executeTrade_shares_mono:
  assumes "sharesHeld cl = 0" and "0 \<le> microTradeAmount cl" and "0 < p"
  shows "sharesHeld s \<le> sharesHeld (executeTrade cl p s)"
  using assms by (simp add: executeTrade_def Let_def)

lemma ticks_shares_nonneg:
  assumes "sharesHeld cl = 0" and "0 \<le> microTradeAmount cl"
    and "\<forall>r\<in>set rs. 0 < newPrice v cl r" and "0 \<le> sharesHeld s"
  shows "0 \<le> sharesHeld (ticks v cl rs s)"
  using assms(3,4)
proof (induction rs arbitrary: s)
  case Nil
  then show ?case by simp
next
  case (Cons r rs)
  have "sharesHeld s \<le> sharesHeld (tickCallback v cl r s)"
    using Cons.prems(1) assms(1,2) by (simp add: tick_sharesHeld executeTrade_shares_mono)
  with Cons show ?case by simp
qed

lemma shares_nonneg_single_run:
  assumes "isRunning (vars c) = False" and "sharesHeld (vars c) = 0"
    and "0 \<le> microTradeAmount (vars c)"
    and "\<forall>r\<in>set rs. 0 < newPrice v (vars c) r"
  shows "0 \<le> sharesHeld (vars (run v c (Start # map Tick rs)))"
proof -
  have st: "step v c Start = \<lparr>vars = (vars c)\<lparr>isRunning := True\<rparr>, timer = Some (vars c)\<rparr>"
    using assms(1) by (simp add: step_def handle_def startSimulation_def anchorEffect_def Let_def)
  have "run v c (Start # map Tick rs)
          = (step v c Start)\<lparr>vars := ticks v (vars c) rs ((vars c)\<lparr>isRunning := True\<rparr>)\<rparr>"
    using run_ticks [of "step v c Start" "vars c" v rs] by (simp add: st)
  moreover have "0 \<le> sharesHeld (ticks v (vars c) rs ((vars c)\<lparr>isRunning := True\<rparr>))"
    using assms by (intro ticks_shares_nonneg) simp_all
  ultimately show ?thesis by simp
qed

section \<open>The price series\<close>

lemma appendPrice_lastN:
  "appendPrice p xs = lastN 50 (xs @ [\<lparr>time = length xs, price = p\<rparr>])"
  by (simp add: appendPrice_def lastN_def Let_def)

lemma appendPrice_length: "length (appendPrice p xs) = min 50 (Suc (length xs))"
  by (simp add: appendPrice_def Let_def)

lemma appendPrice_snoc:
  "appendPrice p xs = drop (length xs - 49) xs @ [\<lparr>time = length xs, price = p\<rparr>]"
  by (simp add: appendPrice_def Let_def)

lemma tick_last_time: "time (last (priceData (tickCallback v cl r s))) = length (priceData s)"
  by (simp add: tick_priceData appendPrice_snoc)

lemma lastN_lastN_append: "lastN n (lastN n xs @ ys) = lastN n (xs @ ys)"
  by (cases "length xs \<le> n") (simp_all add: lastN_def add.commute)

lemma lastN_append_short:
  "length ys \<le> n \<Longrightarrow> lastN n (xs @ ys) = lastN (n - length ys) xs @ ys"
  by (simp add: lastN_def)

lemma map_lastN: "map f (lastN n xs) = lastN n (map f xs)"
  by (simp add: lastN_def drop_map)

lemma lastN_id: "length xs \<le> n \<Longrightarrow> lastN n xs = xs"
  by (simp add: lastN_def)

lemma ticks_prices:
  "length (priceData s) \<le> 50 \<Longrightarrow>
   map price (priceData (ticks v cl rs s))
     = lastN 50 (map price (priceData s) @ map (newPrice v cl) rs)"
proof (induction rs rule: rev_induct)
  case Nil
  then show ?case by (simp add: lastN_id)
next
  case (snoc r rs)
  then show ?case
    by (simp add: ticks_snoc tick_priceData appendPrice_lastN map_lastN
        lastN_lastN_append [of 50 _ "[x]" for x, simplified])
qed

lemma ticks_length:
  "length (priceData (ticks v cl rs s))
     = (if rs = [] then length (priceData s) else min 50 (length (priceData s) + length rs))"
  by (induction rs rule: rev_induct) (auto simp: ticks_snoc tick_priceData appendPrice_length)

lemma step_priceData_bound:
  "length (priceData (vars c)) \<le> 50 \<Longrightarrow> length (priceData (vars (step v c cmd))) \<le> 50"
  by (cases cmd; cases v)
     (auto simp: step_def handle_def startSimulation_def pauseSimulation_def
        resetSimulation_def anchorEffect_def tick_priceData appendPrice_length Let_def
        split: option.splits)

lemma reachable_priceData_bound: "length (priceData (vars (run v mount cmds))) \<le> 50"
  by (rule run_invariant) (simp_all add: mount_def initialState_def step_priceData_bound)

text \<open>
  C3. The price series never holds more than 50 points: in every reachable state its
  length is at most 50; one tick appends one point (its time is the length before the
  append) and keeps the last 50 of the result, so the oldest point goes first; and a run
  of ticks leaves the most recent at most 50 prices, in order.
\<close>

theorem price_series_window:
  "length (priceData (vars (run v mount cmds))) \<le> 50
   \<and> priceData (tickCallback v cl r s)
       = lastN 50 (priceData s @ [\<lparr>time = length (priceData s), price = newPrice v cl r\<rparr>])
   \<and> length (priceData (tickCallback v cl r s)) = min 50 (length (priceData s) + 1)
   \<and> (length (priceData s) \<le> 50 \<longrightarrow>
        map price (priceData (ticks v cl rs s))
          = lastN 50 (map price (priceData s) @ map (newPrice v cl) rs))"
  by (simp add: reachable_priceData_bound tick_priceData appendPrice_lastN [symmetric]
      appendPrice_length ticks_prices)

theorem price_series_window_witness:
  "length (priceData fullWindow) \<le> 50
   \<and> map price (priceData (ticks Linear initialState [1/4, 3/4] fullWindow))
       = replicate 48 100 @ [199 / 2, 201 / 2]"
proof -
  have h: "length (priceData fullWindow) \<le> 50"
    by (simp add: fullWindow_def)
  have p: "map price (priceData fullWindow) = replicate 50 100"
    by (simp add: fullWindow_def map_replicate_const comp_def)
  have "map price (priceData (ticks Linear initialState [1/4, 3/4] fullWindow))
          = lastN 50 (map price (priceData fullWindow)
                      @ map (newPrice Linear initialState) [1/4, 3/4])"
    using h price_series_window [of Linear "[]" initialState "1/4" fullWindow "[1/4, 3/4]"]
    by blast
  also have "\<dots> = replicate 48 100 @ [199 / 2, 201 / 2]"
    by (simp add: p lastN_def newPrice_def initialState_def)
  finally show ?thesis using h by simp
qed

subsection \<open>Times after saturation\<close>

lemma appendPrice_times_saturated:
  "length xs = 50 \<Longrightarrow> map time (appendPrice p xs) = lastN 50 (map time xs @ [50])"
  by (simp add: appendPrice_lastN map_lastN)

lemma ticks_times_saturated:
  "length (priceData s) = 50 \<Longrightarrow>
   map time (priceData (ticks v cl rs s))
     = lastN 50 (map time (priceData s) @ replicate (length rs) 50)"
proof (induction rs rule: rev_induct)
  case Nil
  then show ?case by (simp add: lastN_id)
next
  case (snoc r rs)
  have len: "length (priceData (ticks v cl rs s)) = 50"
    using snoc.prems by (simp add: ticks_length)
  have "map time (priceData (ticks v cl (rs @ [r]) s))
          = lastN 50 (map time (priceData (ticks v cl rs s)) @ [50])"
    by (simp add: ticks_snoc tick_priceData appendPrice_times_saturated [OF len])
  also have "\<dots> = lastN 50 (lastN 50 (map time (priceData s) @ replicate (length rs) 50) @ [50])"
    using snoc by simp
  also have "\<dots> = lastN 50 ((map time (priceData s) @ replicate (length rs) 50) @ [50])"
    by (rule lastN_lastN_append)
  also have "\<dots> = lastN 50 (map time (priceData s) @ replicate (length (rs @ [r])) 50)"
    by (simp add: replicate_append_same)
  finally show ?case .
qed

lemma replicate_two_more: "replicate (k + 2) (x::nat) = replicate k x @ [x, x]"
  by (induction k) simp_all

lemma ticks_times_not_distinct:
  assumes "length (priceData s) = 50" and "2 \<le> length rs"
  shows "\<not> distinct (map time (priceData (ticks v cl rs s)))"
proof -
  obtain k where k: "length rs = k + 2"
    using assms(2) by (metis add.commute le_Suc_ex)
  have rep: "replicate (length rs) (50::nat) = replicate k 50 @ [50, 50]"
    unfolding k by (rule replicate_two_more)
  have "map time (priceData (ticks v cl rs s))
          = lastN 50 (map time (priceData s) @ replicate (length rs) 50)"
    by (rule ticks_times_saturated [OF assms(1)])
  also have "\<dots> = lastN 50 ((map time (priceData s) @ replicate k 50) @ [50, 50])"
    by (simp only: rep append_assoc)
  also have "\<dots> = lastN (50 - length [50::nat, 50]) (map time (priceData s) @ replicate k 50)
                       @ [50, 50]"
    by (rule lastN_append_short) simp
  finally show ?thesis by simp
qed

text \<open>
  C10. Once the price series holds 50 points, every tick keeps it at 50 and appends a
  point with time 50: after a run of ticks the times are the last 50 of the old times
  followed by one 50 per tick, so from the second such tick on the times repeat.
\<close>

theorem saturated_time_pinned:
  assumes "length (priceData s) = 50"
  shows "length (priceData (tickCallback v cl r s)) = 50
         \<and> time (last (priceData (tickCallback v cl r s))) = 50
         \<and> map time (priceData (ticks v cl rs s))
             = lastN 50 (map time (priceData s) @ replicate (length rs) 50)
         \<and> (2 \<le> length rs \<longrightarrow> \<not> distinct (map time (priceData (ticks v cl rs s))))"
proof (intro conjI impI)
  show "length (priceData (tickCallback v cl r s)) = 50"
    using assms by (simp add: tick_priceData appendPrice_length)
  show "time (last (priceData (tickCallback v cl r s))) = 50"
    using assms by (simp add: tick_last_time)
  show "map time (priceData (ticks v cl rs s))
          = lastN 50 (map time (priceData s) @ replicate (length rs) 50)"
    using assms by (rule ticks_times_saturated)
  show "\<not> distinct (map time (priceData (ticks v cl rs s)))" if "2 \<le> length rs"
    using assms that by (rule ticks_times_not_distinct)
qed

theorem saturated_time_pinned_witness:
  "length (priceData fullWindow) = 50
   \<and> length (priceData (tickCallback Linear initialState (1/4) fullWindow)) = 50
   \<and> time (last (priceData (tickCallback Linear initialState (1/4) fullWindow))) = 50
   \<and> \<not> distinct (map time (priceData (ticks Linear initialState [1/4, 3/4] fullWindow)))"
proof -
  have h: "length (priceData fullWindow) = 50"
    by (simp add: fullWindow_def)
  have two: "2 \<le> length [1/4, 3/4 :: real]"
    by simp
  from saturated_time_pinned [OF h, of Linear initialState "1/4" "[1/4, 3/4]"] two h
  show ?thesis by blast
qed

section \<open>The price generator\<close>

text \<open>
  In every reachable state the render captured by the interval holds a one-point chart,
  so the exponent of the trend is 1 at every tick.
\<close>

lemma captured_trend_constant:
  assumes "timer (run ExpDrift mount cmds) = Some cl"
  shows "newPrice ExpDrift cl r
           = anchorPrice cl * (1 + 0.002) + (r - 0.5) * 2 * (anchorPrice cl * (1 + 0.002) * 0.015)"
proof -
  have "length (priceData cl) = 1"
    using reachable_stoppedBaseline [of ExpDrift cmds] assms by (simp add: stoppedBaseline_def)
  then show ?thesis by (simp add: newPrice_def Let_def)
qed

text \<open>
  C8. The claim is that the trend of tick \<open>t\<close> is \<open>anchor * (1 + growthRate)^t\<close> and
  grows from tick to tick. With a random draw of 1/2 (no noise) the first, second and
  third tick all produce \<open>100 * 1.002^1\<close>: the trend does not grow.
\<close>

theorem trend_does_not_grow:
  "currentPrice (vars (run ExpDrift mount [Start, Tick (1/2)])) = 100 * (1 + 0.002) ^ 1
   \<and> currentPrice (vars (run ExpDrift mount [Start, Tick (1/2), Tick (1/2)]))
       = 100 * (1 + 0.002) ^ 1
   \<and> currentPrice (vars (run ExpDrift mount [Start, Tick (1/2), Tick (1/2), Tick (1/2)]))
       = 100 * (1 + 0.002) ^ 1
   \<and> (100 * (1 + 0.002) ^ 1 :: real) \<noteq> 100 * (1 + 0.002) ^ 2"
  by (simp add: eval_defs power2_eq_square)

section \<open>The balance log\<close>

text \<open>
  When the last logged balance is not 0, an event is appended exactly when the projected
  balance differs from it. When it is 0, the comparison is against 1000 instead.
\<close>

lemma updateHistory_nonzero:
  assumes "h \<noteq> []" and "balance (last h) \<noteq> 0"
  shows "updateHistory cl p h =
           (if projectedBalance cl p = balance (last h) then h
            else h @ [\<lparr>ev_time = length h, balance = projectedBalance cl p,
                       change = projectedBalance cl p - balance (last h),
                       action = tradeStatus cl, ev_price = Some p\<rparr>])"
  using assms by (simp add: updateHistory_def Let_def)

lemma updateHistory_zero:
  assumes "h \<noteq> []" and "balance (last h) = 0"
  shows "updateHistory cl p h =
           (if projectedBalance cl p = 1000 then h
            else h @ [\<lparr>ev_time = length h, balance = projectedBalance cl p,
                       change = projectedBalance cl p - 1000,
                       action = tradeStatus cl, ev_price = Some p\<rparr>])"
  using assms by (simp add: updateHistory_def Let_def)

text \<open>
  C4. The claim is that an event is appended if and only if the projected balance differs
  from the last logged balance. With a micro trade amount of 1000 the first buy logs a
  balance of 0. The next buy tick projects 0 again, equal to the last logged balance, and
  an event is appended all the same; a sell-zone tick instead projects 1000, different
  from the last logged 0, and nothing is appended.
\<close>

theorem balance_log_zero_fallback:
  "map balance (cashBalanceHistory (vars
       (run ExpDrift mount [SetMicroTradeAmount 1000, Start, Tick (1/4)]))) = [1000, 0]
   \<and> map balance (cashBalanceHistory (vars
       (run ExpDrift mount [SetMicroTradeAmount 1000, Start, Tick (1/4), Tick (1/4)])))
       = [1000, 0, 0]
   \<and> map balance (cashBalanceHistory (vars
       (run ExpDrift mount [SetMicroTradeAmount 1000, Start, Tick (1/4), Tick (3/4)])))
       = [1000, 0]"
  by (simp add: eval_defs)

subsection \<open>Logged times\<close>

text \<open>
  C5, as claimed, fails: two ticks without a balance change leave the log alone, and the
  event that the third tick appends carries time 1, not the index of that tick.
\<close>

theorem balance_time_counterexample:
  "cashBalanceHistory (vars (run ExpDrift mount [Start, Tick (3/4), Tick (3/4)]))
     = cashBalanceHistory initialState
   \<and> map ev_time
        (cashBalanceHistory
          (vars (run ExpDrift mount [Start, Tick (3/4), Tick (3/4), Tick (1/4)])))
       = [0, 1]"
  by (simp add: eval_defs)

lemma updateHistory_times:
  "map ev_time h = [0..<length h] \<Longrightarrow>
   map ev_time (updateHistory cl p h) = [0..<length (updateHistory cl p h)]"
  by (simp add: updateHistory_def Let_def)

lemma updateHistory_appends:
  "updateHistory cl p h = h
   \<or> (\<exists>e. updateHistory cl p h = h @ [e] \<and> ev_time e = length h)"
  by (simp add: updateHistory_def Let_def)

lemma step_history_times:
  "map ev_time (cashBalanceHistory (vars c)) = [0..<length (cashBalanceHistory (vars c))] \<Longrightarrow>
   map ev_time (cashBalanceHistory (vars (step v c cmd)))
     = [0..<length (cashBalanceHistory (vars (step v c cmd)))]"
  by (cases cmd; cases v)
     (auto simp: step_def handle_def startSimulation_def pauseSimulation_def
        resetSimulation_def anchorEffect_def tick_history_Linear tick_history_ExpDrift
        updateHistory_times Let_def
        split: option.splits)

lemma reachable_history_times:
  "map ev_time (cashBalanceHistory (vars (run v mount cmds)))
     = [0..<length (cashBalanceHistory (vars (run v mount cmds)))]"
  by (rule run_invariant) (simp_all add: mount_def initialState_def step_history_times)

text \<open>
  C5, amended. The time of an appended event is the length of the log before the append,
  its index in the log: a tick either leaves the log alone or appends one event with that
  time, and in every reachable state the logged times are 0, 1, 2, ... without gaps.
\<close>

theorem balance_time_is_log_index:
  "(cashBalanceHistory (tickCallback ExpDrift cl r s) = cashBalanceHistory s
    \<or> (\<exists>e. cashBalanceHistory (tickCallback ExpDrift cl r s) = cashBalanceHistory s @ [e]
            \<and> ev_time e = length (cashBalanceHistory s)))
   \<and> map ev_time (cashBalanceHistory (vars (run v mount cmds)))
       = [0..<length (cashBalanceHistory (vars (run v mount cmds)))]"
  using updateHistory_appends [of cl "newPrice ExpDrift cl r" "cashBalanceHistory s"]
  by (simp add: tick_history_ExpDrift reachable_history_times)

theorem balance_time_is_log_index_witness:
  "map ev_time
     (cashBalanceHistory
       (vars (run ExpDrift mount [Start, Tick (3/4), Tick (1/4), Tick (3/4), Tick (3/4)])))
     = [0, 1, 2]"
proof -
  let ?h = "cashBalanceHistory
              (vars (run ExpDrift mount [Start, Tick (3/4), Tick (1/4), Tick (3/4), Tick (3/4)]))"
  have len: "length ?h = 3"
    by (simp add: eval_defs)
  have "map ev_time ?h = [0..<length ?h]"
    using balance_time_is_log_index
            [of initialState "3/4" initialState ExpDrift
                "[Start, Tick (3/4), Tick (1/4), Tick (3/4), Tick (3/4)]"]
    by blast
  also have "\<dots> = [0..<3]"
    by (simp only: len)
  also have "\<dots> = [0, 1, 2]"
    by code_simp
  finally show ?thesis .
qed

section \<open>Reset\<close>

text \<open>
  C6. From every state of the component, hence from every reachable one, reset clears
  the interval and restores the initial values: not running, cash 1000, no shares, the
  current price at the anchor, status IDLE, the one-point price series at the anchor and,
  in the revision that has one, the one-event balance log.
\<close>

theorem reset_restores_initial:
  "timer (step v c Reset) = None
   \<and> isRunning (vars (step v c Reset)) = False
   \<and> cashBalance (vars (step v c Reset)) = 1000
   \<and> sharesHeld (vars (step v c Reset)) = 0
   \<and> anchorPrice (vars (step v c Reset)) = anchorPrice (vars c)
   \<and> currentPrice (vars (step v c Reset)) = anchorPrice (vars c)
   \<and> tradeStatus (vars (step v c Reset)) = ''IDLE''
   \<and> priceData (vars (step v c Reset)) = [\<lparr>time = 0, price = anchorPrice (vars c)\<rparr>]
   \<and> cashBalanceHistory (vars (step ExpDrift c Reset))
       = [\<lparr>ev_time = 0, balance = 1000, change = 0, action = ''INITIAL'', ev_price = None\<rparr>]"
  by (cases v)
     (simp_all add: step_def handle_def resetSimulation_def anchorEffect_def Let_def)

theorem reset_restores_initial_witness:
  "vars (step ExpDrift (run ExpDrift mount [Start, Tick (1/4), Tick (3/4), Pause]) Reset)
     = initialState
   \<and> timer (step ExpDrift (run ExpDrift mount [Start, Tick (1/4), Tick (3/4), Pause]) Reset)
       = None"
  using reset_restores_initial
          [of ExpDrift "run ExpDrift mount [Start, Tick (1/4), Tick (3/4), Pause]"]
  by (simp add: eval_defs)

section \<open>CSV export against its specification\<close>

declare showNat.simps [simp del]

lemma showNat_small: "n < 10 \<Longrightarrow> showNat n = [digitChar n]"
  by (subst showNat.simps) simp

lemma showNat_large: "10 \<le> n \<Longrightarrow> showNat n = showNat (n div 10) @ [digitChar (n mod 10)]"
  by (subst showNat.simps) simp

lemma digitChar_0: "digitChar 0 = CHR ''0''"
  by (simp add: digitChar_def)

lemma showNat_nonempty: "showNat n \<noteq> []"
  by (subst showNat.simps) simp

lemma showNat_hundreds:
  assumes "100 \<le> n"
  shows "showNat n = showNat (n div 100) @ [digitChar (n div 10 mod 10), digitChar (n mod 10)]"
proof -
  from assms have a: "10 \<le> n" and b: "10 \<le> n div 10" by simp_all
  have c: "n div 10 div 10 = n div 100"
    by (simp add: div_mult2_eq [symmetric])
  show ?thesis
    by (simp add: showNat_large [OF a] showNat_large [OF b] c)
qed

lemma insertPoint_two:
  "insertPoint 2 (showNat n)
     = showNat (n div 100) @ ''.'' @ [digitChar (n div 10 mod 10), digitChar (n mod 10)]"
proof -
  consider "n < 10" | "10 \<le> n" "n < 100" | "100 \<le> n"
    by linarith
  then show ?thesis
  proof cases
    case 1
    then show ?thesis
      by (simp add: insertPoint_def showNat_small digitChar_0 numeral_3_eq_3)
  next
    case 2
    then have "n div 10 < 10" by simp
    with 2 show ?thesis
      by (simp add: insertPoint_def showNat_large showNat_small digitChar_0)
  next
    case 3
    then show ?thesis
      by (simp add: insertPoint_def showNat_hundreds showNat_nonempty)
  qed
qed

lemma toFixed_two:
  assumes "\<bar>x\<bar> < 10 ^ 21"
  shows "toFixed numberToString 2 x = spec_fixed2 x"
proof (cases "x < 0")
  case True
  with assms have "\<not> 10 ^ 21 \<le> - x" by simp
  with True show ?thesis
    by (simp add: toFixed_def spec_fixed2_def insertPoint_two Let_def)
next
  case False
  with assms have "\<not> 10 ^ 21 \<le> x" by simp
  with False show ?thesis
    by (simp add: toFixed_def spec_fixed2_def insertPoint_two Let_def)
qed

lemma spec_fixed2_nonempty: "spec_fixed2 x \<noteq> []"
  by (simp add: spec_fixed2_def Let_def)

lemma join_Cons: "join sep (x # xs) = x @ concat (map (\<lambda>y. sep @ y) xs)"
  by (induction xs arbitrary: x) simp_all

lemma row_refines:
  assumes "fixedNotation e"
  shows "csvRow numberToString e = spec_row e"
  using assms
  by (auto simp: csvRow_def fixedNotation_def spec_row_def toFixed_two spec_fixed2_nonempty
      Let_def split: option.splits)

lemma export_refines:
  assumes "\<forall>e\<in>set history. fixedNotation e"
  shows "exportCashBalanceData numberToString history = spec_csv history"
proof -
  have eq: "map (csvRow numberToString) history = map spec_row history"
    using assms by (simp add: row_refines)
  show ?thesis
    unfolding exportCashBalanceData_def join_Cons eq
    by (simp add: spec_csv_def comp_def)
qed

lemma example_csv:
  "spec_csv exampleLog
     = ''Time,Cash Balance,Change,Action,Asset Price\<newline>0,1000.00,0.00,INITIAL,N/A\<newline>1,999.00,-1.00,BUYING,90.00''"
  by (simp add: spec_csv_def spec_row_def spec_fixed2_def exampleLog_def showNat_small
      showNat_large digitChar_def Let_def)

lemma example_fixed: "\<forall>e\<in>set exampleLog. fixedNotation e"
  by (simp add: exampleLog_def fixedNotation_def)

lemma toFixed_big:
  "10 ^ 21 \<le> \<bar>x\<bar> \<Longrightarrow> toFixed numberToString f x = (if x < 0 then ''-'' else []) @ numberToString \<bar>x\<bar>"
  by (auto simp: toFixed_def Let_def)

lemma exponentNotation_example: "exponentNotation 4972425000000000000000 = ''4.972425e+21''"
  by (simp add: exponentNotation_def stripZeros_def showNat_small showNat_large digitChar_def
      Let_def)

lemma big_price_history:
  "cashBalanceHistory
     (vars (run ExpDrift mount [SetAnchorPrice (5 * 10 ^ 21), Start, Tick (1/4), Pause]))
     = [\<lparr>ev_time = 0, balance = 1000, change = 0, action = ''INITIAL'', ev_price = None\<rparr>,
        \<lparr>ev_time = 1, balance = 999, change = - 1, action = ''IDLE'',
          ev_price = Some 4972425000000000000000\<rparr>]"
  by (simp add: eval_defs)

text \<open>
  C9, as claimed, fails: with an anchor price of \<open>5 * 10^21\<close> the first tick buys at
  \<open>4972425 * 10^15\<close>, and the row of that event ends in the price's default string,
  \<open>4.972425e+21\<close>, where two decimals would give \<open>4972425000000000000000.00\<close>.
\<close>

theorem csv_exponent_counterexample:
  "exportCashBalanceData exponentNotation
     (cashBalanceHistory
       (vars (run ExpDrift mount [SetAnchorPrice (5 * 10 ^ 21), Start, Tick (1/4), Pause])))
     = ''Time,Cash Balance,Change,Action,Asset Price\<newline>0,1000.00,0.00,INITIAL,N/A\<newline>1,999.00,-1.00,IDLE,4.972425e+21''
   \<and> spec_csv
       (cashBalanceHistory
         (vars (run ExpDrift mount [SetAnchorPrice (5 * 10 ^ 21), Start, Tick (1/4), Pause])))
     = ''Time,Cash Balance,Change,Action,Asset Price\<newline>0,1000.00,0.00,INITIAL,N/A\<newline>1,999.00,-1.00,IDLE,4972425000000000000000.00''"
  unfolding big_price_history
  by (simp add: exportCashBalanceData_def csvRow_def toFixed_two toFixed_big
        exponentNotation_example spec_csv_def spec_row_def
        spec_fixed2_def showNat_small showNat_large digitChar_def Let_def)

text \<open>
  C9, amended. For a log whose numbers are below \<open>10^21\<close> in magnitude, the exported
  text is the header line followed by one row per event, with balance and change printed
  with exactly two decimals and the price with two decimals or as \<open>N/A\<close> when absent.
  For the log of the initial event and one BUYING event at price 90 the text is the three
  lines below. A number of magnitude \<open>10^21\<close> or more is printed as its sign and its
  default string instead.
\<close>

theorem csv_export_format:
  "(list_all fixedNotation history \<longrightarrow>
      exportCashBalanceData numberToString history = spec_csv history)
   \<and> exportCashBalanceData numberToString exampleLog
       = ''Time,Cash Balance,Change,Action,Asset Price\<newline>0,1000.00,0.00,INITIAL,N/A\<newline>1,999.00,-1.00,BUYING,90.00''
   \<and> (10 ^ 21 \<le> \<bar>x\<bar> \<longrightarrow>
        toFixed numberToString 2 x = (if x < 0 then ''-'' else []) @ numberToString \<bar>x\<bar>)"
  using export_refines [of history numberToString]
    export_refines [OF example_fixed, of numberToString]
    toFixed_big [of x numberToString 2]
  by (simp add: list_all_iff example_csv)

theorem csv_export_format_witness:
  "list_all fixedNotation exampleLog
   \<and> exportCashBalanceData exponentNotation exampleLog = spec_csv exampleLog
   \<and> spec_csv exampleLog
       = ''Time,Cash Balance,Change,Action,Asset Price\<newline>0,1000.00,0.00,INITIAL,N/A\<newline>1,999.00,-1.00,BUYING,90.00''
   \<and> toFixed exponentNotation 2 4972425000000000000000 = ''4.972425e+21''"
proof -
  have h: "list_all fixedNotation exampleLog"
    by (simp add: exampleLog_def fixedNotation_def)
  have b: "(10::real) ^ 21 \<le> \<bar>4972425000000000000000\<bar>"
    by simp
  from csv_export_format [of exampleLog exponentNotation 4972425000000000000000] h b
  have "exportCashBalanceData exponentNotation exampleLog = spec_csv exampleLog"
    and "toFixed exponentNotation 2 4972425000000000000000
           = exponentNotation \<bar>4972425000000000000000\<bar>"
    by simp_all
  with h show ?thesis
    by (simp add: example_csv exponentNotation_example)
qed

end
